theory Spec2Isabelle
  imports Main "HOL-Library.Word"
begin

unbundle bit_operations_syntax

section \<open>Device numbers (fs/osfs)\<close>

text \<open>
  Go's \<^verbatim>\<open>int64\<close> and \<^verbatim>\<open>uint64\<close> are \<open>64 word\<close>, \<^verbatim>\<open>uint32\<close> is \<open>32 word\<close>.
  \<^verbatim>\<open>&\<close>, \<^verbatim>\<open>|\<close>, \<^verbatim>\<open><<\<close> and \<^verbatim>\<open>>>\<close> (on an unsigned operand) are \<open>AND\<close>, \<open>OR\<close>,
  \<open>push_bit\<close> and \<open>drop_bit\<close>; the conversion \<^verbatim>\<open>uint32(x)\<close> keeps the low 32 bits
  (\<open>ucast\<close>), \<^verbatim>\<open>int64(x)\<close> of a \<^verbatim>\<open>uint64\<close> keeps all 64 bits. \<open>sint\<close> reads an
  \<^verbatim>\<open>int64\<close> as the signed integer it denotes.
\<close>

type_synonym int64 = "64 word"
type_synonym uint64 = "64 word"
type_synonym uint32 = "32 word"

text \<open>
  \<^verbatim>\<open>return uint32(((minor & 0xfff00) << 12) | ((major & 0xfff) << 8) | (minor & 0xff))\<close>
\<close>

definition devModesJoin :: "int64 \<Rightarrow> int64 \<Rightarrow> uint32" where
  "devModesJoin major minor =
     ucast (push_bit 12 (minor AND 0xfff00) OR push_bit 8 (major AND 0xfff) OR (minor AND 0xff))"

text \<open>
  \<^verbatim>\<open>return int64((rdev >> 8) & 0xff), int64((rdev & 0xff) | ((rdev >> 12) & 0xfff00))\<close>
\<close>

definition devModesSplit :: "uint64 \<Rightarrow> int64 \<times> int64" where
  "devModesSplit rdev =
     (drop_bit 8 rdev AND 0xff, (rdev AND 0xff) OR (drop_bit 12 rdev AND 0xfff00))"

text \<open>
  The encoded number reaches the host as \<^verbatim>\<open>int(devModesJoin(major, minor))\<close> in
  \<^verbatim>\<open>Mknod\<close> and comes back as the \<^verbatim>\<open>uint64\<close> field \<^verbatim>\<open>Rdev\<close> in \<^verbatim>\<open>LStat\<close>: the
  round trip widens the 32-bit result without sign.
\<close>

definition devModesRoundTrip :: "int64 \<Rightarrow> int64 \<Rightarrow> int64 \<times> int64" where
  "devModesRoundTrip major minor = devModesSplit (ucast (devModesJoin major minor))"


section \<open>Paths, metadata and errors (package fs)\<close>

text \<open>
  The two kinds of path of package \<^verbatim>\<open>fs\<close>, each a wrapper around its string. The
  zero value of \<^verbatim>\<open>fs.RelPath\<close> (what \<^verbatim>\<open>var tmpPath fs.RelPath\<close> declares) wraps the
  empty string.
\<close>

datatype AbsolutePath = AbsolutePath string
datatype RelPath = RelPath string

fun AbsolutePath_String :: "AbsolutePath \<Rightarrow> string" where
  "AbsolutePath_String (AbsolutePath s) = s"

definition zero_RelPath :: RelPath where
  "zero_RelPath = RelPath []"

type_synonym Perms = "32 word"
type_synonym Errno = nat

abbreviation EPERM :: Errno where "EPERM \<equiv> 1"
abbreviation ENOENT :: Errno where "ENOENT \<equiv> 2"
abbreviation EACCES :: Errno where "EACCES \<equiv> 13"
abbreviation EBUSY :: Errno where "EBUSY \<equiv> 16"
abbreviation EINVAL :: Errno where "EINVAL \<equiv> 22"

text \<open>\<^verbatim>\<open>*os.PathError\<close>: the error type of every failing \<^verbatim>\<open>os.Readlink\<close>.\<close>

record PathError =
  Op :: string
  Path :: string
  Err :: Errno

text \<open>\<^verbatim>\<open>os.IsNotExist\<close> on a \<^verbatim>\<open>*os.PathError\<close> whose cause is a \<^verbatim>\<open>syscall.Errno\<close>.\<close>

definition os_IsNotExist :: "PathError \<Rightarrow> bool" where
  "os_IsNotExist err = (Err err = ENOENT)"

datatype ErrFS = ErrNotExists RelPath | ErrIOUnknown PathError

text \<open>
  Modelled from the spec: \<^verbatim>\<open>fs.IOError\<close> (package \<^verbatim>\<open>fs\<close>, not in src/) turns the error of
  a host call into the I/O error kind; no error stays no error.
\<close>

fun IOError :: "PathError option \<Rightarrow> ErrFS option" where
  "IOError None = None"
| "IOError (Some err) = Some (ErrIOUnknown err)"

datatype fs_Type =
  Type_File | Type_Dir | Type_Symlink | Type_NamedPipe | Type_Socket | Type_Device
  | Type_CharDevice

record Metadata =
  Name :: RelPath
  Type :: fs_Type
  Perms :: Perms
  Uid :: uint32
  Gid :: uint32
  Size :: int64
  Linkname :: string
  Devmajor :: int64
  Devminor :: int64

text \<open>
  Errors built by \<^verbatim>\<open>Errorf(category, format, args...)\<close> of go-errcat keep their category,
  format string and arguments; any other value of Go's \<^verbatim>\<open>error\<close> interface is
  \<open>ForeignError\<close> with its message.
\<close>

datatype category = ExitLocalCacheProblem | ErrLocalCacheProblem | ErrAssemblyInvalid

datatype fmtarg = ErrFSArg ErrFS | PathArg AbsolutePath | ErrnoArg Errno

datatype error = Errorf category string "fmtarg list" | ForeignError string


section \<open>The host: what the code calls and src/ does not contain\<close>

text \<open>
  The state of the host (filesystem, mount table) is a value of type \<open>'w\<close>. The functions
  the code calls whose bodies are not in src/ are the fields of one record: the path
  functions of package \<^verbatim>\<open>fs\<close>, \<^verbatim>\<open>fsOp.MkdirAll\<close>, the placer package's \<^verbatim>\<open>rootFs\<close> and
  \<^verbatim>\<open>mkDest\<close>, and the calls into \<^verbatim>\<open>os\<close> and \<^verbatim>\<open>syscall\<close>. A call that changes the host
  returns the new state; \<^verbatim>\<open>LStat\<close> and \<^verbatim>\<open>os.Readlink\<close> only read it. \<^verbatim>\<open>fs.MustRelPath\<close>
  panics on a string it does not accept: \<open>None\<close>.
\<close>

type_synonym uintptr = "64 word"

abbreviation MS_RDONLY :: uintptr where "MS_RDONLY \<equiv> 0x1"
abbreviation MS_REMOUNT :: uintptr where "MS_REMOUNT \<equiv> 0x20"
abbreviation MS_BIND :: uintptr where "MS_BIND \<equiv> 0x1000"
abbreviation MS_REC :: uintptr where "MS_REC \<equiv> 0x4000"

record osFS =
  basePath :: AbsolutePath

definition BasePath :: "osFS \<Rightarrow> AbsolutePath" where
  "BasePath afs = basePath afs"

record 'w host =
  Join :: "AbsolutePath \<Rightarrow> RelPath \<Rightarrow> AbsolutePath"
  MustRelPath :: "string \<Rightarrow> RelPath option"
  CoerceRelative :: "AbsolutePath \<Rightarrow> RelPath"
  MkdirAll :: "osFS \<Rightarrow> RelPath \<Rightarrow> Perms \<Rightarrow> 'w \<Rightarrow> ErrFS option \<times> 'w"
  rootFs_LStat :: "RelPath \<Rightarrow> 'w \<Rightarrow> ErrFS + Metadata"
  mkDest :: "AbsolutePath \<Rightarrow> fs_Type \<Rightarrow> 'w \<Rightarrow> error option \<times> 'w"
  os_Readlink :: "string \<Rightarrow> 'w \<Rightarrow> PathError + string"
  syscall_Mount :: "string \<Rightarrow> string \<Rightarrow> string \<Rightarrow> uintptr \<Rightarrow> string \<Rightarrow> 'w \<Rightarrow> Errno option \<times> 'w"
  syscall_Unmount :: "string \<Rightarrow> int \<Rightarrow> 'w \<Rightarrow> Errno option \<times> 'w"


section \<open>osFS.Readlink (fs/osfs)\<close>

text \<open>
  The result is the triple \<^verbatim>\<open>(string, bool, fs.ErrFS)\<close>; the cases of the \<^verbatim>\<open>switch\<close> are
  tried in the order of the source.
\<close>

definition Readlink :: "'w host \<Rightarrow> osFS \<Rightarrow> RelPath \<Rightarrow> 'w \<Rightarrow> string \<times> bool \<times> ErrFS option" where
  "Readlink h afs path w =
     (case os_Readlink h (AbsolutePath_String (Join h (basePath afs) path)) w of
        Inr target \<Rightarrow> (target, True, None)
      | Inl err \<Rightarrow>
          if os_IsNotExist err then ([], False, Some (ErrNotExists path))
          else if Err err = EINVAL then ([], False, None)
          else ([], False, IOError (Some err)))"


section \<open>The bind placer (package placer)\<close>

text \<open>
  The placer's own calls to \<^verbatim>\<open>syscall.Mount\<close> and \<^verbatim>\<open>syscall.Unmount\<close> are recorded, in
  order, with their arguments. A run returns its Go results, the host state it leaves and
  the calls it made.
\<close>

datatype syscall =
  Mount string string string uintptr string
  | Unmount string int

type_synonym 'w CleanupFunc = "'w \<Rightarrow> error option \<times> 'w \<times> syscall list"

text \<open>The closure returned on success: \<^verbatim>\<open>syscall.Unmount(dstPath.String(), 0)\<close>.\<close>

definition BindPlacer_cleanup :: "'w host \<Rightarrow> AbsolutePath \<Rightarrow> 'w CleanupFunc" where
  "BindPlacer_cleanup h dstPath w =
     (case syscall_Unmount h (AbsolutePath_String dstPath) 0 w of
        (Some err, w1) \<Rightarrow>
          (Some (Errorf ErrLocalCacheProblem ''error tearing down bind mount: %s'' [ErrnoArg err]),
           w1, [Unmount (AbsolutePath_String dstPath) 0])
      | (None, w1) \<Rightarrow> (None, w1, [Unmount (AbsolutePath_String dstPath) 0]))"

definition BindPlacer ::
  "'w host \<Rightarrow> AbsolutePath \<Rightarrow> AbsolutePath \<Rightarrow> bool \<Rightarrow> 'w
    \<Rightarrow> ('w CleanupFunc option \<times> error option) \<times> 'w \<times> syscall list" where
  "BindPlacer h srcPath dstPath writable w =
     (case rootFs_LStat h (CoerceRelative h srcPath) w of
        Inl err \<Rightarrow>
          ((None, Some (Errorf ErrLocalCacheProblem ''error placing with bind mount: %s''
                          [ErrFSArg err])), w, [])
      | Inr srcStat \<Rightarrow>
          if Type srcStat \<noteq> Type_File \<and> Type srcStat \<noteq> Type_Dir then
            ((None, Some (Errorf ErrAssemblyInvalid
                            ''placer: source may only be dir or plain file (%s is %s)''
                            [PathArg srcPath])), w, [])
          else
            (case mkDest h dstPath (Type srcStat) w of
               (Some err, w1) \<Rightarrow> ((None, Some err), w1, [])
             | (None, w1) \<Rightarrow>
                 (let src = AbsolutePath_String srcPath;
                      dst = AbsolutePath_String dstPath;
                      flags = MS_BIND OR MS_REC;
                      bind = Mount src dst ''bind'' flags []
                  in case syscall_Mount h src dst ''bind'' flags [] w1 of
                       (Some err, w2) \<Rightarrow>
                         ((None, Some (Errorf ErrAssemblyInvalid
                                         ''error placing with bind mount: %s'' [ErrnoArg err])),
                          w2, [bind])
                     | (None, w2) \<Rightarrow>
                         if \<not> writable then
                           (let flags' = flags OR MS_RDONLY OR MS_REMOUNT;
                                remount = Mount src dst ''bind'' flags' []
                            in case syscall_Mount h src dst ''bind'' flags' [] w2 of
                                 (Some err, w3) \<Rightarrow>
                                   ((None, Some (Errorf ErrAssemblyInvalid
                                                   ''error placing with bind mount: %s''
                                                   [ErrnoArg err])),
                                    w3, [bind, remount])
                               | (None, w3) \<Rightarrow>
                                   ((Some (BindPlacer_cleanup h dstPath), None),
                                    w3, [bind, remount]))
                         else
                           ((Some (BindPlacer_cleanup h dstPath), None), w2, [bind]))))"


section \<open>The cache (package cache)\<close>

record WareID =
  WareID_Type :: string
  WareID_Hash :: string

text \<open>\<^verbatim>\<open>api.WareID{}\<close>\<close>

definition zero_WareID :: WareID where
  "zero_WareID = \<lparr>WareID_Type = [], WareID_Hash = []\<rparr>"

datatype PlacementMode = Placement_Direct | Placement_Copy | Placement_Mount

text \<open>
  \<^verbatim>\<open>rio.UnpackFunc\<close>. The context, the filters, the warehouse addresses and the monitor
  are opaque to the cache: type variables. The tool acts on the host and returns
  \<^verbatim>\<open>(api.WareID, error)\<close>.
\<close>

type_synonym ('c, 'f, 'a, 'm, 'w) UnpackFunc =
  "'c \<Rightarrow> WareID \<Rightarrow> string \<Rightarrow> 'f \<Rightarrow> PlacementMode \<Rightarrow> 'a list \<Rightarrow> 'm \<Rightarrow> 'w
    \<Rightarrow> (WareID \<times> error option) \<times> 'w"

text \<open>One invocation of the unpack tool, with the arguments it was given.\<close>

datatype ('c, 'f, 'a, 'm) invocation =
  Invoke 'c WareID string 'f PlacementMode "'a list" 'm

fun invocation_path :: "('c, 'f, 'a, 'm) invocation \<Rightarrow> string" where
  "invocation_path (Invoke ctx wareID path filt placementMode warehouses monitor) = path"

record ('c, 'f, 'a, 'm, 'w) cache =
  afs :: osFS
  unpackTool :: "('c, 'f, 'a, 'm, 'w) UnpackFunc"

text \<open>
  \<^verbatim>\<open>cache.Unpack\<close>. A run returns \<open>None\<close> when \<^verbatim>\<open>fs.MustRelPath\<close> panics and otherwise the
  pair \<^verbatim>\<open>(api.WareID, error)\<close>, then the host state it leaves and the invocations of the
  unpack tool it made. \<^verbatim>\<open>0700\<close> is octal.
\<close>

definition cache_Unpack ::
  "'w host \<Rightarrow> ('c, 'f, 'a, 'm, 'w) cache \<Rightarrow> 'c \<Rightarrow> WareID \<Rightarrow> string \<Rightarrow> 'f \<Rightarrow> PlacementMode
    \<Rightarrow> 'a list \<Rightarrow> 'm \<Rightarrow> 'w
    \<Rightarrow> (WareID \<times> error option) option \<times> 'w \<times> ('c, 'f, 'a, 'm) invocation list" where
  "cache_Unpack h c ctx wareID path filt placementMode warehouses monitor w =
     (case MustRelPath h (WareID_Type wareID @ ''/fileset'') of
        None \<Rightarrow> (None, w, [])
      | Some dir \<Rightarrow>
          (case MkdirAll h (afs c) dir 448 w of
             (Some err, w1) \<Rightarrow>
               (Some (zero_WareID,
                      Some (Errorf ExitLocalCacheProblem ''cannot initialize cache dirs: %s''
                              [ErrFSArg err])),
                w1, [])
           | (None, w1) \<Rightarrow>
               (let tmpPath = zero_RelPath;
                    tmpPathStr = AbsolutePath_String (Join h (BasePath (afs c)) tmpPath)
                in case unpackTool c ctx wareID tmpPathStr filt Placement_Direct warehouses
                          monitor w1 of
                     ((resultWareID, Some err), w2) \<Rightarrow>
                       (Some (resultWareID, Some err), w2,
                        [Invoke ctx wareID tmpPathStr filt Placement_Direct warehouses monitor])
                   | ((resultWareID, None), w2) \<Rightarrow>
                       (Some (resultWareID, None), w2,
                        [Invoke ctx wareID tmpPathStr filt Placement_Direct warehouses monitor]))))"

text \<open>Two calls of \<^verbatim>\<open>Unpack\<close>, the second on the host state the first one left.\<close>

definition Unpack_then_Unpack where
  "Unpack_then_Unpack first second w =
     (case first w of
        (r1, w1, calls1) \<Rightarrow>
          (case second w1 of (r2, w2, calls2) \<Rightarrow> (r1, r2, w2, calls1 @ calls2)))"


section \<open>A simulated host for concrete runs\<close>

text \<open>
  A small host on which the functions above can be run: a list of filesystem entries
  (path, type, link target), the paths whose directory the caller may not search, the
  mount table (source, destination, read-only) and the destinations on which the host
  refuses a remount. It stands in for the missing functions only in the concrete runs
  below; the general theorems hold for every host.
\<close>

record sim =
  files :: "(string \<times> fs_Type \<times> string) list"
  denied :: "string list"
  mounts :: "(string \<times> string \<times> bool) list"
  frozen :: "string list"

fun sim_Join :: "AbsolutePath \<Rightarrow> RelPath \<Rightarrow> AbsolutePath" where
  "sim_Join (AbsolutePath a) (RelPath r) =
     AbsolutePath (if r = [] then a
                   else if a \<noteq> [] \<and> last a = CHR ''/'' then a @ r
                   else a @ ''/'' @ r)"

fun sim_MustRelPath :: "string \<Rightarrow> RelPath option" where
  "sim_MustRelPath [] = Some (RelPath [])"
| "sim_MustRelPath (c # cs) = (if c = CHR ''/'' then None else Some (RelPath (c # cs)))"

fun sim_CoerceRelative :: "AbsolutePath \<Rightarrow> RelPath" where
  "sim_CoerceRelative (AbsolutePath a) = RelPath (drop 1 a)"

definition sim_add :: "string \<Rightarrow> fs_Type \<Rightarrow> sim \<Rightarrow> sim" where
  "sim_add p t w =
     (if p \<in> set (map fst (files w)) then w else w\<lparr>files := files w @ [(p, t, [])]\<rparr>)"

definition sim_MkdirAll :: "osFS \<Rightarrow> RelPath \<Rightarrow> Perms \<Rightarrow> sim \<Rightarrow> ErrFS option \<times> sim" where
  "sim_MkdirAll fsys p perms w =
     (None, sim_add (AbsolutePath_String (sim_Join (basePath fsys) p)) Type_Dir w)"

fun sim_LStat :: "RelPath \<Rightarrow> sim \<Rightarrow> ErrFS + Metadata" where
  "sim_LStat (RelPath p) w =
     (case map_of (files w) (''/'' @ p) of
        None \<Rightarrow> Inl (ErrNotExists (RelPath p))
      | Some (t, l) \<Rightarrow>
          Inr \<lparr>Name = RelPath p, Type = t, Perms = 0, Uid = 0, Gid = 0, Size = 0,
               Linkname = l, Devmajor = 0, Devminor = 0\<rparr>)"

definition sim_mkDest :: "AbsolutePath \<Rightarrow> fs_Type \<Rightarrow> sim \<Rightarrow> error option \<times> sim" where
  "sim_mkDest dst t w = (None, sim_add (AbsolutePath_String dst) t w)"

definition sim_os_Readlink :: "string \<Rightarrow> sim \<Rightarrow> PathError + string" where
  "sim_os_Readlink p w =
     (if p \<in> set (denied w) then Inl \<lparr>Op = ''readlink'', Path = p, Err = EACCES\<rparr>
      else case map_of (files w) p of
             None \<Rightarrow> Inl \<lparr>Op = ''readlink'', Path = p, Err = ENOENT\<rparr>
           | Some (t, l) \<Rightarrow>
               if t = Type_Symlink then Inr l
               else Inl \<lparr>Op = ''readlink'', Path = p, Err = EINVAL\<rparr>)"

definition sim_Mount ::
  "string \<Rightarrow> string \<Rightarrow> string \<Rightarrow> uintptr \<Rightarrow> string \<Rightarrow> sim \<Rightarrow> Errno option \<times> sim" where
  "sim_Mount src dst fstype flags data w =
     (if bit flags 5 then
        (if dst \<in> set (frozen w) then (Some EPERM, w)
         else (None, w\<lparr>mounts := map (\<lambda>(s, d, ro). if d = dst then (s, d, bit flags 0)
                                                    else (s, d, ro)) (mounts w)\<rparr>))
      else (None, w\<lparr>mounts := (src, dst, False) # mounts w\<rparr>))"

definition sim_Unmount :: "string \<Rightarrow> int \<Rightarrow> sim \<Rightarrow> Errno option \<times> sim" where
  "sim_Unmount dst flags w =
     (if dst \<in> set (map (\<lambda>(s, d, ro). d) (mounts w))
      then (None, w\<lparr>mounts := filter (\<lambda>(s, d, ro). d \<noteq> dst) (mounts w)\<rparr>)
      else (Some EINVAL, w))"

definition sim_host :: "sim host" where
  "sim_host =
     \<lparr>Join = sim_Join, MustRelPath = sim_MustRelPath, CoerceRelative = sim_CoerceRelative,
      MkdirAll = sim_MkdirAll, rootFs_LStat = sim_LStat, mkDest = sim_mkDest,
      os_Readlink = sim_os_Readlink, syscall_Mount = sim_Mount,
      syscall_Unmount = sim_Unmount\<rparr>"

text \<open>
  Modelled from the spec: \<^verbatim>\<open>cacheapi.ShelfFor\<close> (package \<^verbatim>\<open>rio/cache\<close>, not in src/) gives
  the canonical shelf path of a WareID; here it is the entry named by the hash inside the
  directory \<^verbatim>\<open>Type/fileset\<close> that \<^verbatim>\<open>Unpack\<close> creates.
\<close>

definition ShelfFor :: "WareID \<Rightarrow> RelPath" where
  "ShelfFor wareID = RelPath (WareID_Type wareID @ ''/fileset/'' @ WareID_Hash wareID)"

definition ware_abc :: WareID where
  "ware_abc = \<lparr>WareID_Type = ''tar'', WareID_Hash = ''abc''\<rparr>"

definition ware_xyz :: WareID where
  "ware_xyz = \<lparr>WareID_Type = ''tar'', WareID_Hash = ''xyz''\<rparr>"

text \<open>Three unpack tools: one that unpacks, one that fails half way, one whose hash differs.\<close>

definition tool_unpacks :: "(unit, unit, string, unit, sim) UnpackFunc" where
  "tool_unpacks ctx wareID path filt placementMode warehouses monitor w =
     ((wareID, None), sim_add (path @ ''/content'') Type_File (sim_add path Type_Dir w))"

definition tool_fails :: "(unit, unit, string, unit, sim) UnpackFunc" where
  "tool_fails ctx wareID path filt placementMode warehouses monitor w =
     ((zero_WareID, Some (ForeignError ''warehouse unavailable'')),
      sim_add (path @ ''/partial'') Type_File (sim_add path Type_Dir w))"

definition tool_other_hash :: "(unit, unit, string, unit, sim) UnpackFunc" where
  "tool_other_hash ctx wareID path filt placementMode warehouses monitor w =
     ((ware_xyz, None), sim_add (path @ ''/content'') Type_File (sim_add path Type_Dir w))"

text \<open>
  A tool whose outcome shows what it was given: it unpacks only in direct placement mode,
  and names the file it writes after the filters and the monitor it received.
\<close>

definition tool_shows_args :: "(unit, string, string, string, sim) UnpackFunc" where
  "tool_shows_args ctx wareID path filt placementMode warehouses monitor w =
     (if placementMode = Placement_Direct
      then ((wareID, None), sim_add (path @ ''/'' @ filt @ ''-'' @ monitor) Type_File w)
      else ((zero_WareID, Some (ForeignError ''placement needs a placer'')), w))"

definition showing_cache :: "(unit, string, string, string, sim) cache" where
  "showing_cache = \<lparr>afs = \<lparr>basePath = AbsolutePath ''/cache''\<rparr>, unpackTool = tool_shows_args\<rparr>"

definition sim_cache ::
  "(unit, unit, string, unit, sim) UnpackFunc \<Rightarrow> (unit, unit, string, unit, sim) cache" where
  "sim_cache tool = \<lparr>afs = \<lparr>basePath = AbsolutePath ''/cache''\<rparr>, unpackTool = tool\<rparr>"

definition empty_cache_host :: sim where
  "empty_cache_host =
     \<lparr>files = [(''/cache'', Type_Dir, [])], denied = [], mounts = [], frozen = []\<rparr>"

definition shelved_cache_host :: sim where
  "shelved_cache_host =
     \<lparr>files = [(''/cache'', Type_Dir, []), (''/cache/tar/fileset'', Type_Dir, []),
               (''/cache/tar/fileset/abc'', Type_Dir, [])],
      denied = [], mounts = [], frozen = []\<rparr>"

definition placer_host :: sim where
  "placer_host =
     \<lparr>files = [(''/shelf'', Type_Dir, []), (''/pipe'', Type_NamedPipe, []),
               (''/link'', Type_Symlink, ''shelf''), (''/locked/entry'', Type_File, [])],
      denied = [''/locked/entry''], mounts = [], frozen = [''/dest'']\<rparr>"


section \<open>Properties of the device-number encoding\<close>

lemma mask_0xfff: "(0xfff :: 64 word) = mask 12"
  by (simp add: mask_eq_exp_minus_1)

lemma mask_0xff: "(0xff :: 64 word) = mask 8"
  by (simp add: mask_eq_exp_minus_1)

lemma mask_0xfff00: "(0xfff00 :: 64 word) = push_bit 8 (mask 12)"
  by (simp add: mask_eq_exp_minus_1)

text \<open>
  The layout of the encoding, bit by bit: bits 0-7 are the low 8 bits of minor, bits
  8-19 the low 12 bits of major, bits 20-31 are bits 8-19 of minor.
\<close>

lemma bit_devModesJoin:
  "bit (devModesJoin major minor) n \<longleftrightarrow>
     (n < 8 \<and> bit minor n) \<or>
     (8 \<le> n \<and> n < 20 \<and> bit major (n - 8)) \<or>
     (20 \<le> n \<and> n < 32 \<and> bit minor (n - 12))"
  unfolding devModesJoin_def mask_0xfff mask_0xff mask_0xfff00
  by (auto simp add: bit_simps)

lemma bit_eq_of_take_bit_eq:
  fixes a b :: "64 word"
  assumes "take_bit k a = take_bit k b" and "n < k"
  shows "bit a n = bit b n"
proof -
  have "bit (take_bit k a) n = bit (take_bit k b) n"
    using assms(1) by simp
  then show ?thesis
    using assms(2) by (simp add: bit_take_bit_iff)
qed

lemma devModesJoin_take_bit_cong:
  assumes M: "take_bit 12 major = take_bit 12 major'"
    and m: "take_bit 20 minor = take_bit 20 minor'"
  shows "devModesJoin major minor = devModesJoin major' minor'"
proof (rule bit_word_eqI)
  fix n
  assume "n < LENGTH(32)"
  have lo: "n < 8 \<Longrightarrow> bit minor n = bit minor' n"
    by (rule bit_eq_of_take_bit_eq [OF m]) simp
  have mid: "n < 20 \<Longrightarrow> bit major (n - 8) = bit major' (n - 8)"
    by (rule bit_eq_of_take_bit_eq [OF M]) simp
  have hi: "n < 32 \<Longrightarrow> bit minor (n - 12) = bit minor' (n - 12)"
    by (rule bit_eq_of_take_bit_eq [OF m]) simp
  show "bit (devModesJoin major minor) n = bit (devModesJoin major' minor') n"
    using lo mid hi unfolding bit_devModesJoin by blast
qed

lemma take_bit_eq_of_sint_mod_eq:
  fixes a b :: "64 word"
  assumes "sint a mod 2 ^ n = sint b mod 2 ^ n" and "n \<le> 64"
  shows "take_bit n a = take_bit n b"
proof (rule bit_word_eqI)
  fix k
  assume "k < LENGTH(64)"
  then have k: "k < 64" by simp
  have "bit (take_bit n (sint a)) k = bit (take_bit n (sint b)) k"
    using assms(1) by (simp add: take_bit_eq_mod)
  then have "k < n \<Longrightarrow> bit a k = bit b k"
    using k assms(2) by (simp add: bit_take_bit_iff bit_sint_iff)
  then show "bit (take_bit n a) k = bit (take_bit n b) k"
    by (auto simp add: bit_take_bit_iff)
qed

lemma mask_0xfffff: "(0xfffff :: 64 word) = mask 20"
  by (simp add: mask_eq_exp_minus_1)

text \<open>What the round trip returns for every input: eight bits of major, twenty of minor.\<close>

lemma devModesRoundTrip_eq:
  "devModesRoundTrip major minor = (major AND 0xff, minor AND 0xfffff)"
proof -
  have major_part:
    "drop_bit 8 (ucast (devModesJoin major minor) :: 64 word) AND 0xff = major AND 0xff"
    unfolding mask_0xff
    by (rule bit_word_eqI) (auto simp add: bit_simps bit_devModesJoin)
  have minor_part:
    "((ucast (devModesJoin major minor) :: 64 word) AND 0xff) OR
     (drop_bit 12 (ucast (devModesJoin major minor) :: 64 word) AND 0xfff00) =
       minor AND 0xfffff"
    unfolding mask_0xff mask_0xfff00 mask_0xfffff
    by (rule bit_word_eqI) (auto simp add: bit_simps bit_devModesJoin)
  show ?thesis
    by (simp only: devModesRoundTrip_def devModesSplit_def major_part minor_part)
qed

text \<open>
  C1 (device-number round trip). The claim: for every major in [0, 2^12) and minor in
  [0, 2^20), decoding the encoded device number gives the pair back. The code does not:
  \<^verbatim>\<open>devModesSplit\<close> masks the major with \<^verbatim>\<open>0xff\<close> where \<^verbatim>\<open>devModesJoin\<close> stored twelve bits
  under \<^verbatim>\<open>0xfff\<close>. At major 256, minor 0 the encoded number is 0x10000 and the decoded
  pair is (0, 0).
\<close>

theorem devModesSplit_drops_major_bits:
  "devModesJoin 256 0 = 0x10000 \<and> devModesRoundTrip 256 0 = (0, 0)"
  by (simp add: devModesRoundTrip_def devModesJoin_def devModesSplit_def)

text \<open>
  C10 (out-of-range input is truncated, never rejected). \<^verbatim>\<open>devModesJoin\<close> is a total
  function into \<^verbatim>\<open>uint32\<close> with no error result, and two calls whose majors agree modulo
  2^12 and whose minors agree modulo 2^20 (read as signed 64-bit integers) give the same
  device number: higher bits of either argument do not reach the result.
\<close>

theorem devModesJoin_depends_on_low_bits:
  assumes "sint major mod 2 ^ 12 = sint major' mod 2 ^ 12"
    and "sint minor mod 2 ^ 20 = sint minor' mod 2 ^ 20"
  shows "devModesJoin major minor = devModesJoin major' minor'"
proof -
  have "take_bit 12 major = take_bit 12 major'"
    using assms(1) by (rule take_bit_eq_of_sint_mod_eq) simp
  moreover have "take_bit 20 minor = take_bit 20 minor'"
    using assms(2) by (rule take_bit_eq_of_sint_mod_eq) simp
  ultimately show ?thesis
    by (rule devModesJoin_take_bit_cong)
qed

theorem devModesJoin_depends_on_low_bits_witness:
  "sint (- 1 :: int64) mod 2 ^ 12 = sint (0xfff :: int64) mod 2 ^ 12 \<and>
   sint (0x100005 :: int64) mod 2 ^ 20 = sint (5 :: int64) mod 2 ^ 20 \<and>
   devModesJoin (- 1) 0x100005 = devModesJoin 0xfff 5 \<and>
   devModesJoin 0xfff 5 = 0xfff05"
proof -
  have a: "sint (- 1 :: int64) mod 2 ^ 12 = sint (0xfff :: int64) mod 2 ^ 12"
    by simp
  have b: "sint (0x100005 :: int64) mod 2 ^ 20 = sint (5 :: int64) mod 2 ^ 20"
    by simp
  have c: "devModesJoin 0xfff 5 = 0xfff05"
    by (simp add: devModesJoin_def)
  show ?thesis
    using a b c devModesJoin_depends_on_low_bits [OF a b] by simp
qed


section \<open>Properties of osFS.Readlink\<close>

text \<open>
  C9 (the four outcomes of Readlink). The host reports through \<^verbatim>\<open>os.Readlink\<close>: the link
  target when the entry is a symlink, \<^verbatim>\<open>ENOENT\<close> when the entry does not exist, \<^verbatim>\<open>EINVAL\<close>
  when it exists and is not a symlink, any other errno for any other failure. For every
  host, driver, path and host state, Readlink returns the target with \<open>True\<close> and no
  error in the first case, a not-found error for the path in the second, the empty
  string, \<open>False\<close> and no error in the third, and the I/O error of the host error in
  every other case.
\<close>

theorem Readlink_outcomes:
  "(os_Readlink h (AbsolutePath_String (Join h (basePath fsys) path)) w = Inr target \<longrightarrow>
      Readlink h fsys path w = (target, True, None)) \<and>
   (os_Readlink h (AbsolutePath_String (Join h (basePath fsys) path)) w = Inl err \<and>
    Err err = ENOENT \<longrightarrow>
      Readlink h fsys path w = ([], False, Some (ErrNotExists path))) \<and>
   (os_Readlink h (AbsolutePath_String (Join h (basePath fsys) path)) w = Inl err \<and>
    Err err = EINVAL \<longrightarrow>
      Readlink h fsys path w = ([], False, None)) \<and>
   (os_Readlink h (AbsolutePath_String (Join h (basePath fsys) path)) w = Inl err \<and>
    Err err \<noteq> ENOENT \<and> Err err \<noteq> EINVAL \<longrightarrow>
      Readlink h fsys path w = ([], False, IOError (Some err)) \<and>
      IOError (Some err) \<noteq> None)"
  by (simp add: Readlink_def os_IsNotExist_def)

lemmas sim_simps =
  sim_host_def sim_MkdirAll_def sim_add_def sim_mkDest_def sim_os_Readlink_def sim_Mount_def
  sim_Unmount_def sim_cache_def tool_unpacks_def tool_fails_def tool_other_hash_def
  empty_cache_host_def shelved_cache_host_def placer_host_def ware_abc_def ware_xyz_def
  zero_WareID_def zero_RelPath_def BasePath_def ShelfFor_def tool_shows_args_def
  showing_cache_def

text \<open>
  On the simulated host, rooted at \<^verbatim>\<open>/\<close>: \<^verbatim>\<open>link\<close> is a symlink to \<^verbatim>\<open>shelf\<close>, \<^verbatim>\<open>nope\<close> does
  not exist, \<^verbatim>\<open>shelf\<close> is a directory and \<^verbatim>\<open>locked/entry\<close> lies in a directory the caller
  may not search.
\<close>

theorem Readlink_outcomes_witness:
  "os_Readlink sim_host ''/link'' placer_host = Inr ''shelf'' \<and>
   Readlink sim_host \<lparr>basePath = AbsolutePath ''/''\<rparr> (RelPath ''link'') placer_host =
     (''shelf'', True, None) \<and>
   os_Readlink sim_host ''/nope'' placer_host =
     Inl \<lparr>Op = ''readlink'', Path = ''/nope'', Err = ENOENT\<rparr> \<and>
   Readlink sim_host \<lparr>basePath = AbsolutePath ''/''\<rparr> (RelPath ''nope'') placer_host =
     ([], False, Some (ErrNotExists (RelPath ''nope''))) \<and>
   os_Readlink sim_host ''/shelf'' placer_host =
     Inl \<lparr>Op = ''readlink'', Path = ''/shelf'', Err = EINVAL\<rparr> \<and>
   Readlink sim_host \<lparr>basePath = AbsolutePath ''/''\<rparr> (RelPath ''shelf'') placer_host =
     ([], False, None) \<and>
   os_Readlink sim_host ''/locked/entry'' placer_host =
     Inl \<lparr>Op = ''readlink'', Path = ''/locked/entry'', Err = EACCES\<rparr> \<and>
   Readlink sim_host \<lparr>basePath = AbsolutePath ''/''\<rparr> (RelPath ''locked/entry'') placer_host =
     ([], False, Some (ErrIOUnknown \<lparr>Op = ''readlink'', Path = ''/locked/entry'', Err = EACCES\<rparr>))"
proof -
  let ?root = "\<lparr>basePath = AbsolutePath ''/''\<rparr>"
  let ?at = "\<lambda>p. os_Readlink sim_host
                 (AbsolutePath_String (Join sim_host (basePath ?root) (RelPath p))) placer_host"
  have link: "?at ''link'' = Inr ''shelf''"
    by (simp add: sim_simps)
  have nope: "?at ''nope'' = Inl \<lparr>Op = ''readlink'', Path = ''/nope'', Err = ENOENT\<rparr>"
    by (simp add: sim_simps)
  have shelf: "?at ''shelf'' = Inl \<lparr>Op = ''readlink'', Path = ''/shelf'', Err = EINVAL\<rparr>"
    by (simp add: sim_simps)
  have locked:
    "?at ''locked/entry'' = Inl \<lparr>Op = ''readlink'', Path = ''/locked/entry'', Err = EACCES\<rparr>"
    by (simp add: sim_simps)
  have r1: "Readlink sim_host ?root (RelPath ''link'') placer_host = (''shelf'', True, None)"
    using Readlink_outcomes [of sim_host ?root "RelPath ''link''" placer_host "''shelf''"] link
    by blast
  have r2: "Readlink sim_host ?root (RelPath ''nope'') placer_host =
              ([], False, Some (ErrNotExists (RelPath ''nope'')))"
    using Readlink_outcomes [of sim_host ?root "RelPath ''nope''" placer_host _
            "\<lparr>Op = ''readlink'', Path = ''/nope'', Err = ENOENT\<rparr>"] nope
    by simp
  have r3: "Readlink sim_host ?root (RelPath ''shelf'') placer_host = ([], False, None)"
    using Readlink_outcomes [of sim_host ?root "RelPath ''shelf''" placer_host _
            "\<lparr>Op = ''readlink'', Path = ''/shelf'', Err = EINVAL\<rparr>"] shelf
    by simp
  have r4: "Readlink sim_host ?root (RelPath ''locked/entry'') placer_host =
              ([], False, Some (ErrIOUnknown
                 \<lparr>Op = ''readlink'', Path = ''/locked/entry'', Err = EACCES\<rparr>))"
    using Readlink_outcomes [of sim_host ?root "RelPath ''locked/entry''" placer_host _
            "\<lparr>Op = ''readlink'', Path = ''/locked/entry'', Err = EACCES\<rparr>"] locked
    by simp
  have paths: "?at ''link'' = os_Readlink sim_host ''/link'' placer_host"
    "?at ''nope'' = os_Readlink sim_host ''/nope'' placer_host"
    "?at ''shelf'' = os_Readlink sim_host ''/shelf'' placer_host"
    "?at ''locked/entry'' = os_Readlink sim_host ''/locked/entry'' placer_host"
    by (simp_all add: sim_host_def)
  show ?thesis
    using link nope shelf locked r1 r2 r3 r4 unfolding paths by blast
qed


section \<open>Properties of the bind placer\<close>

text \<open>
  C8 (only files and directories are placed). For every host and every call of the bind
  placer in which the stat of the source succeeds and the type of the source is neither
  \<open>Type_File\<close> nor \<open>Type_Dir\<close>, the placer returns no teardown function and an error
  of category \<open>ErrAssemblyInvalid\<close>, leaves the host as it was, and has made no call to
  \<^verbatim>\<open>syscall.Mount\<close> or \<^verbatim>\<open>syscall.Unmount\<close>.
\<close>

theorem BindPlacer_rejects_other_types:
  assumes "rootFs_LStat h (CoerceRelative h srcPath) w = Inr srcStat"
    and "Type srcStat \<noteq> Type_File"
    and "Type srcStat \<noteq> Type_Dir"
  shows "BindPlacer h srcPath dstPath writable w =
           ((None, Some (Errorf ErrAssemblyInvalid
                           ''placer: source may only be dir or plain file (%s is %s)''
                           [PathArg srcPath])), w, [])"
  using assms by (simp add: BindPlacer_def)

theorem BindPlacer_rejects_other_types_witness:
  "Type \<lparr>Name = RelPath ''pipe'', Type = Type_NamedPipe, Perms = 0, Uid = 0, Gid = 0, Size = 0,
         Linkname = [], Devmajor = 0, Devminor = 0\<rparr> \<noteq> Type_File \<and>
   Type \<lparr>Name = RelPath ''pipe'', Type = Type_NamedPipe, Perms = 0, Uid = 0, Gid = 0, Size = 0,
         Linkname = [], Devmajor = 0, Devminor = 0\<rparr> \<noteq> Type_Dir \<and>
   rootFs_LStat sim_host (CoerceRelative sim_host (AbsolutePath ''/pipe'')) placer_host =
     Inr \<lparr>Name = RelPath ''pipe'', Type = Type_NamedPipe, Perms = 0, Uid = 0, Gid = 0, Size = 0,
          Linkname = [], Devmajor = 0, Devminor = 0\<rparr> \<and>
   BindPlacer sim_host (AbsolutePath ''/pipe'') (AbsolutePath ''/dest'') False placer_host =
     ((None, Some (Errorf ErrAssemblyInvalid
                     ''placer: source may only be dir or plain file (%s is %s)''
                     [PathArg (AbsolutePath ''/pipe'')])), placer_host, [])"
proof -
  let ?stat = "\<lparr>Name = RelPath ''pipe'', Type = Type_NamedPipe, Perms = 0, Uid = 0, Gid = 0,
                Size = 0, Linkname = [], Devmajor = 0, Devminor = 0\<rparr>"
  have stat: "rootFs_LStat sim_host (CoerceRelative sim_host (AbsolutePath ''/pipe'')) placer_host
                = Inr ?stat"
    by (simp add: sim_simps)
  have no_file: "Type ?stat \<noteq> Type_File" and no_dir: "Type ?stat \<noteq> Type_Dir"
    by simp_all
  from BindPlacer_rejects_other_types [OF stat no_file no_dir] stat no_file no_dir
  show ?thesis by blast
qed

text \<open>
  C3 (a failed read-only remount is rolled back). The claim: when the bind succeeds and
  the read-only remount fails, the placer unmounts the bind before it returns the error.
  The code returns at once. On the simulated host, where \<^verbatim>\<open>/shelf\<close> is a directory and
  the host refuses to remount \<^verbatim>\<open>/dest\<close>, the call with \<^verbatim>\<open>writable=false\<close> returns the
  error and no teardown function, has made two calls to \<^verbatim>\<open>syscall.Mount\<close> and none to
  \<^verbatim>\<open>syscall.Unmount\<close>, and leaves the writable bind of \<^verbatim>\<open>/shelf\<close> on \<^verbatim>\<open>/dest\<close> in the
  mount table.
\<close>

theorem BindPlacer_leaves_writable_bind:
  "fst (BindPlacer sim_host (AbsolutePath ''/shelf'') (AbsolutePath ''/dest'') False placer_host) =
     (None, Some (Errorf ErrAssemblyInvalid ''error placing with bind mount: %s''
                    [ErrnoArg EPERM])) \<and>
   snd (snd (BindPlacer sim_host (AbsolutePath ''/shelf'') (AbsolutePath ''/dest'') False
               placer_host)) =
     [Mount ''/shelf'' ''/dest'' ''bind'' (MS_BIND OR MS_REC) [],
      Mount ''/shelf'' ''/dest'' ''bind'' (MS_BIND OR MS_REC OR MS_RDONLY OR MS_REMOUNT) []] \<and>
   mounts (fst (snd (BindPlacer sim_host (AbsolutePath ''/shelf'') (AbsolutePath ''/dest'') False
                       placer_host))) =
     [(''/shelf'', ''/dest'', False)]"
  by (simp add: BindPlacer_def sim_simps Let_def)


section \<open>Properties of the cache\<close>

text \<open>
  Once the cache directory is there, \<^verbatim>\<open>Unpack\<close> is one invocation of the unpack tool and
  nothing else: the results, the host state and the error are those of the tool.
\<close>

lemma cache_Unpack_after_init:
  assumes "MustRelPath h (WareID_Type wareID @ ''/fileset'') = Some dir"
    and "MkdirAll h (afs c) dir 448 w = (None, w1)"
  shows "cache_Unpack h c ctx wareID path filt placementMode warehouses monitor w =
     (case unpackTool c ctx wareID
             (AbsolutePath_String (Join h (BasePath (afs c)) zero_RelPath))
             filt Placement_Direct warehouses monitor w1 of
        ((resultWareID, err), w2) \<Rightarrow>
          (Some (resultWareID, err), w2,
           [Invoke ctx wareID (AbsolutePath_String (Join h (BasePath (afs c)) zero_RelPath))
              filt Placement_Direct warehouses monitor]))"
  using assms by (simp add: cache_Unpack_def Let_def split: prod.splits option.splits)

text \<open>The caller's destination path and placement mode do not reach the result.\<close>

lemma cache_Unpack_ignores_path_and_mode:
  "cache_Unpack h c ctx wareID path filt placementMode warehouses monitor w =
   cache_Unpack h c ctx wareID path' filt placementMode' warehouses monitor w"
  by (simp add: cache_Unpack_def)

text \<open>
  C7 (placement mode forced to direct, filters and monitor forwarded). For every host,
  every unpack tool and every call of \<^verbatim>\<open>Unpack\<close> that gets as far as the tool (the cache
  directory could be made), the tool is applied exactly once, to \<open>Placement_Direct\<close>
  whatever placement mode the caller asked for, and to the caller's context, WareID,
  filters, warehouses and monitor: what \<^verbatim>\<open>Unpack\<close> returns and the host state it leaves
  are what the tool returns and leaves on these arguments, and the one recorded invocation
  carries the same arguments.
\<close>

theorem Unpack_invokes_tool_direct:
  assumes "MustRelPath h (WareID_Type wareID @ ''/fileset'') = Some dir"
    and "MkdirAll h (afs c) dir 448 w = (None, w1)"
  shows "cache_Unpack h c ctx wareID path filt placementMode warehouses monitor w =
     (Some (fst (unpackTool c ctx wareID
                   (AbsolutePath_String (Join h (BasePath (afs c)) zero_RelPath))
                   filt Placement_Direct warehouses monitor w1)),
      snd (unpackTool c ctx wareID
             (AbsolutePath_String (Join h (BasePath (afs c)) zero_RelPath))
             filt Placement_Direct warehouses monitor w1),
      [Invoke ctx wareID (AbsolutePath_String (Join h (BasePath (afs c)) zero_RelPath))
         filt Placement_Direct warehouses monitor])"
  by (simp add: cache_Unpack_after_init [OF assms] split: prod.splits)

text \<open>
  On the simulated host, with the tool that shows its arguments: the caller asks for
  \<open>Placement_Mount\<close> with the filters \<^verbatim>\<open>keep\<close> and the monitor \<^verbatim>\<open>chan\<close>; the tool
  unpacks, so it was given \<open>Placement_Direct\<close>, and the file it wrote carries both names.
\<close>

theorem Unpack_invokes_tool_direct_witness:
  "MustRelPath sim_host (WareID_Type ware_abc @ ''/fileset'') = Some (RelPath ''tar/fileset'') \<and>
   MkdirAll sim_host (afs showing_cache) (RelPath ''tar/fileset'') 448 empty_cache_host =
     (None, sim_add ''/cache/tar/fileset'' Type_Dir empty_cache_host) \<and>
   cache_Unpack sim_host showing_cache () ware_abc ''/dest'' ''keep'' Placement_Mount
       [''file:///warehouse''] ''chan'' empty_cache_host =
     (Some (ware_abc, None),
      \<lparr>files = [(''/cache'', Type_Dir, []), (''/cache/tar/fileset'', Type_Dir, []),
                (''/cache/keep-chan'', Type_File, [])],
       denied = [], mounts = [], frozen = []\<rparr>,
      [Invoke () ware_abc ''/cache'' ''keep'' Placement_Direct [''file:///warehouse'']
         ''chan''])"
proof -
  have init: "MustRelPath sim_host (WareID_Type ware_abc @ ''/fileset'') =
                Some (RelPath ''tar/fileset'')"
    by (simp add: sim_simps)
  have mkdir: "MkdirAll sim_host (afs showing_cache) (RelPath ''tar/fileset'') 448
                   empty_cache_host =
                 (None, sim_add ''/cache/tar/fileset'' Type_Dir empty_cache_host)"
    by (simp add: sim_simps)
  have staging: "AbsolutePath_String (Join sim_host (BasePath (afs showing_cache)) zero_RelPath) =
                 ''/cache''"
    by (simp add: sim_simps)
  have tool: "unpackTool showing_cache () ware_abc ''/cache'' ''keep'' Placement_Direct
                [''file:///warehouse''] ''chan''
                (sim_add ''/cache/tar/fileset'' Type_Dir empty_cache_host) =
              ((ware_abc, None),
               \<lparr>files = [(''/cache'', Type_Dir, []), (''/cache/tar/fileset'', Type_Dir, []),
                         (''/cache/keep-chan'', Type_File, [])],
                denied = [], mounts = [], frozen = []\<rparr>)"
    by (simp add: sim_simps)
  have run: "cache_Unpack sim_host showing_cache () ware_abc ''/dest'' ''keep'' Placement_Mount
               [''file:///warehouse''] ''chan'' empty_cache_host =
             (Some (ware_abc, None),
              \<lparr>files = [(''/cache'', Type_Dir, []), (''/cache/tar/fileset'', Type_Dir, []),
                        (''/cache/keep-chan'', Type_File, [])],
               denied = [], mounts = [], frozen = []\<rparr>,
              [Invoke () ware_abc ''/cache'' ''keep'' Placement_Direct [''file:///warehouse'']
                 ''chan''])"
    using Unpack_invokes_tool_direct [OF init mkdir, of "()" "''/dest''" "''keep''"
            Placement_Mount "[''file:///warehouse'']" "''chan''"]
    unfolding staging tool by simp
  show ?thesis
    using init mkdir run by blast
qed

text \<open>
  C6 (what Unpack does when the tool succeeds). As amended: for every host and every call
  of \<^verbatim>\<open>Unpack\<close> in which the cache directory could be made and the unpack tool returns a
  WareID and no error, \<^verbatim>\<open>Unpack\<close> returns that WareID and no error; the WareID is not
  compared with the requested one.
\<close>

theorem Unpack_returns_tool_WareID:
  assumes "MustRelPath h (WareID_Type wareID @ ''/fileset'') = Some dir"
    and "MkdirAll h (afs c) dir 448 w = (None, w1)"
    and "unpackTool c ctx wareID (AbsolutePath_String (Join h (BasePath (afs c)) zero_RelPath))
           filt Placement_Direct warehouses monitor w1 = ((resultWareID, None), w2)"
  shows "fst (cache_Unpack h c ctx wareID path filt placementMode warehouses monitor w) =
           Some (resultWareID, None)"
  by (simp add: cache_Unpack_after_init [OF assms(1,2)] assms(3))

theorem Unpack_returns_tool_WareID_witness:
  "MustRelPath sim_host (WareID_Type ware_abc @ ''/fileset'') = Some (RelPath ''tar/fileset'') \<and>
   MkdirAll sim_host (afs (sim_cache tool_unpacks)) (RelPath ''tar/fileset'') 448
       empty_cache_host =
     (None, sim_add ''/cache/tar/fileset'' Type_Dir empty_cache_host) \<and>
   unpackTool (sim_cache tool_unpacks) () ware_abc
       (AbsolutePath_String (Join sim_host (BasePath (afs (sim_cache tool_unpacks))) zero_RelPath))
       () Placement_Direct [] () (sim_add ''/cache/tar/fileset'' Type_Dir empty_cache_host) =
     ((ware_abc, None),
      \<lparr>files = [(''/cache'', Type_Dir, []), (''/cache/tar/fileset'', Type_Dir, []),
                (''/cache/content'', Type_File, [])],
       denied = [], mounts = [], frozen = []\<rparr>) \<and>
   fst (cache_Unpack sim_host (sim_cache tool_unpacks) () ware_abc ''/dest'' () Placement_Copy
          [] () empty_cache_host) = Some (ware_abc, None)"
proof -
  have init: "MustRelPath sim_host (WareID_Type ware_abc @ ''/fileset'') =
                Some (RelPath ''tar/fileset'')"
    by (simp add: sim_simps)
  have mkdir: "MkdirAll sim_host (afs (sim_cache tool_unpacks)) (RelPath ''tar/fileset'') 448
                   empty_cache_host =
                 (None, sim_add ''/cache/tar/fileset'' Type_Dir empty_cache_host)"
    by (simp add: sim_simps)
  have tool: "unpackTool (sim_cache tool_unpacks) () ware_abc
       (AbsolutePath_String (Join sim_host (BasePath (afs (sim_cache tool_unpacks))) zero_RelPath))
       () Placement_Direct [] () (sim_add ''/cache/tar/fileset'' Type_Dir empty_cache_host) =
     ((ware_abc, None),
      \<lparr>files = [(''/cache'', Type_Dir, []), (''/cache/tar/fileset'', Type_Dir, []),
                (''/cache/content'', Type_File, [])],
       denied = [], mounts = [], frozen = []\<rparr>)"
    by (simp add: sim_simps)
  from Unpack_returns_tool_WareID [OF init mkdir tool, of "''/dest''" Placement_Copy]
  show ?thesis
    using init mkdir tool by blast
qed

text \<open>
  The claim C6 as stated fails: a tool that answers the request for \<open>ware_abc\<close> with the
  WareID \<open>ware_xyz\<close> and no error makes \<^verbatim>\<open>Unpack\<close> return \<open>ware_xyz\<close> and no error; the
  mismatch is not surfaced.
\<close>

theorem Unpack_mismatch_not_surfaced:
  "fst (cache_Unpack sim_host (sim_cache tool_other_hash) () ware_abc ''/dest'' ()
          Placement_Mount [] () empty_cache_host) = Some (ware_xyz, None) \<and>
   ware_xyz \<noteq> ware_abc"
  by (simp add: cache_Unpack_def Let_def sim_simps)

text \<open>
  C2 (a cache hit skips the tool). The claim: when the shelf of the WareID exists, the
  unpack tool is not invoked, so two calls for one WareID invoke it at most once. The
  code has no such check. On the simulated host whose cache already holds the shelf of
  \<open>ware_abc\<close>, one call invokes the tool; and on the host with an empty cache, two calls
  for \<open>ware_abc\<close> invoke it twice.
\<close>

theorem Unpack_invokes_tool_on_hit:
  "AbsolutePath_String
     (Join sim_host (BasePath (afs (sim_cache tool_unpacks))) (ShelfFor ware_abc))
     \<in> set (map fst (files shelved_cache_host)) \<and>
   snd (snd (cache_Unpack sim_host (sim_cache tool_unpacks) () ware_abc ''/dest'' ()
               Placement_Mount [] () shelved_cache_host)) =
     [Invoke () ware_abc ''/cache'' () Placement_Direct [] ()] \<and>
   snd (snd (snd (Unpack_then_Unpack
      (cache_Unpack sim_host (sim_cache tool_unpacks) () ware_abc ''/dest'' () Placement_Mount
         [] ())
      (cache_Unpack sim_host (sim_cache tool_unpacks) () ware_abc ''/dest'' () Placement_Mount
         [] ())
      empty_cache_host))) =
     [Invoke () ware_abc ''/cache'' () Placement_Direct [] (),
      Invoke () ware_abc ''/cache'' () Placement_Direct [] ()]"
  by (simp add: cache_Unpack_def Unpack_then_Unpack_def Let_def sim_simps)

text \<open>
  C4 (a fresh staging path for every miss). The claim: two distinct calls never select
  the same staging path. The code passes the join of the cache's base path with the zero
  \<^verbatim>\<open>RelPath\<close> to the tool in every call. On the simulated host, the call for \<open>ware_abc\<close>
  and the call for \<open>ware_xyz\<close> both hand the tool the path \<^verbatim>\<open>/cache\<close>.
\<close>

theorem Unpack_reuses_staging_path:
  "map invocation_path (snd (snd (snd (Unpack_then_Unpack
      (cache_Unpack sim_host (sim_cache tool_unpacks) () ware_abc ''/dest1'' () Placement_Mount
         [] ())
      (cache_Unpack sim_host (sim_cache tool_unpacks) () ware_xyz ''/dest2'' () Placement_Mount
         [] ())
      empty_cache_host)))) = [''/cache'', ''/cache'']"
  by (simp add: cache_Unpack_def Unpack_then_Unpack_def Let_def sim_simps)

text \<open>
  C5 (a failed unpack leaves nothing behind). The claim: when the tool fails, \<^verbatim>\<open>Unpack\<close>
  deletes the staging path and returns the tool's error as it is. The code returns the
  error as it is and deletes nothing. On the simulated host, with a tool that writes
  \<^verbatim>\<open>partial\<close> into the staging path and then fails, \<^verbatim>\<open>Unpack\<close> returns that error, and
  the host it leaves still holds the staging path \<^verbatim>\<open>/cache\<close> and \<^verbatim>\<open>/cache/partial\<close>.
\<close>

theorem Unpack_keeps_staging_on_failure:
  "cache_Unpack sim_host (sim_cache tool_fails) () ware_abc ''/dest'' () Placement_Mount [] ()
     empty_cache_host =
   (Some (zero_WareID, Some (ForeignError ''warehouse unavailable'')),
    \<lparr>files = [(''/cache'', Type_Dir, []), (''/cache/tar/fileset'', Type_Dir, []),
              (''/cache/partial'', Type_File, [])],
     denied = [], mounts = [], frozen = []\<rparr>,
    [Invoke () ware_abc ''/cache'' () Placement_Direct [] ()])"
  by (simp add: cache_Unpack_def Let_def sim_simps)


end
